theory Spec2Isabelle
  imports Complex_Main "HOL-Library.AList"
begin

section \<open>Python values and exceptions\<close>

text \<open>
  The values that flow through the two modules: \<open>None\<close>, integers and strings, and
  dictionaries with string keys holding such values.  A dictionary is an association
  list in insertion order; \<open>map_of\<close> is the lookup and \<open>AList.update\<close> the item
  assignment \<^verbatim>\<open>d[k] = v\<close> (an existing key keeps its place, a new key goes last).
  A string is a list of characters.
\<close>

datatype pyatom = PNone | PInt int | PStr string

type_synonym pydict = "(string \<times> pyatom) list"

datatype pyval = Atom pyatom | PDict pydict

text \<open>
  The exceptions the code raises itself (\<open>ValueError\<close>, with its message), the ones
  the interpreter raises for it (a missing key, a subscript on a value that is not a
  container, a method that the value does not have), and the ones of its collaborators:
  the HTTP library's for a request that gets no response and the schema's for options
  it refuses.
\<close>

datatype error =
    ValueError string
  | KeyError string
  | TypeError
  | AttributeError
  | ConnectionError
  | ValidationError

text \<open>\<^verbatim>\<open>type(message)\<close> as the f-string prints it.\<close>

fun type_repr :: "pyval \<Rightarrow> string" where
  "type_repr (Atom PNone) = ''<class 'NoneType'>''"
| "type_repr (Atom (PInt _)) = ''<class 'int'>''"
| "type_repr (Atom (PStr _)) = ''<class 'str'>''"
| "type_repr (PDict _) = ''<class 'dict'>''"

section \<open>AnthropicChatHistory.check_message_format\<close>

fun check_message_format :: "pyval \<Rightarrow> error + pyval" where
  "check_message_format (Atom a) =
     Inl (ValueError (''Message must be a dict, not '' @ type_repr (Atom a) @ ''.''))"
| "check_message_format (PDict message) =
     (if map_of message ''role'' = None then
        Inl (ValueError ''Message must have a 'role' key.'')
      else if map_of message ''content'' = None then
        Inl (ValueError ''Message must have a 'content' key.'')
      else Inr (PDict message))"

text \<open>
  The list comprehension \<^verbatim>\<open>[self.check_message_format(m) for m in messages]\<close>:
  the elements are checked from left to right and the first failure is raised.
\<close>

fun check_each :: "pyval list \<Rightarrow> error + pyval list" where
  "check_each [] = Inr []"
| "check_each (m # ms) =
     (case check_message_format m of
        Inl e \<Rightarrow> Inl e
      | Inr m' \<Rightarrow> (case check_each ms of Inl e \<Rightarrow> Inl e | Inr ms' \<Rightarrow> Inr (m' # ms')))"

section \<open>ChatHistory\<close>

text \<open>
  The attribute \<^verbatim>\<open>_messages\<close> holds a \<^verbatim>\<open>deque(maxlen=max_length)\<close> after
  \<^verbatim>\<open>__init__\<close> and a plain list after an assignment through the \<^verbatim>\<open>messages\<close>
  setter.
\<close>

datatype msgbuf = Deque nat "pyval list" | PyList "pyval list"

record ChatHistory =
  max_length :: int
  u_messages :: msgbuf

fun buf_items :: "msgbuf \<Rightarrow> pyval list" where
  "buf_items (Deque n xs) = xs"
| "buf_items (PyList xs) = xs"

text \<open>
  \<^verbatim>\<open>deque.append\<close> puts the item on the right and, when the deque is then longer than
  \<^verbatim>\<open>maxlen\<close>, drops the leftmost item; \<^verbatim>\<open>list.append\<close> only puts it on the right.
\<close>

fun buf_append :: "msgbuf \<Rightarrow> pyval \<Rightarrow> msgbuf" where
  "buf_append (Deque n xs) x =
     (if n < length (xs @ [x]) then Deque n (tl (xs @ [x])) else Deque n (xs @ [x]))"
| "buf_append (PyList xs) x = PyList (xs @ [x])"

fun buf_clear :: "msgbuf \<Rightarrow> msgbuf" where
  "buf_clear (Deque n xs) = Deque n []"
| "buf_clear (PyList xs) = PyList []"

text \<open>\<^verbatim>\<open>deque(maxlen=max_length)\<close> refuses a negative bound.\<close>

definition ChatHistory_init :: "int \<Rightarrow> error + ChatHistory" where
  "ChatHistory_init n =
     (if n < 0 then Inl (ValueError ''maxlen must be non-negative'')
      else Inr \<lparr>max_length = n, u_messages = Deque (nat n) []\<rparr>)"

definition human_role :: pyatom where
  "human_role = PStr ''human''"

definition assistant_role :: pyatom where
  "assistant_role = PStr ''assistant''"

text \<open>
  A method that can raise returns the exception or unit together with the object as it
  is afterwards.
\<close>

definition append :: "ChatHistory \<Rightarrow> pyatom \<Rightarrow> pyatom \<Rightarrow> (error + unit) \<times> ChatHistory" where
  "append self role content =
     (case check_message_format (PDict [(''role'', role), (''content'', content)]) of
        Inl e \<Rightarrow> (Inl e, self)
      | Inr m \<Rightarrow> (Inr (), self\<lparr>u_messages := buf_append (u_messages self) m\<rparr>))"

definition add_assistant_message :: "ChatHistory \<Rightarrow> pyatom \<Rightarrow> (error + unit) \<times> ChatHistory" where
  "add_assistant_message self message = append self assistant_role message"

definition add_human_message :: "ChatHistory \<Rightarrow> pyatom \<Rightarrow> (error + unit) \<times> ChatHistory" where
  "add_human_message self message = append self human_role message"

definition clear :: "ChatHistory \<Rightarrow> ChatHistory" where
  "clear self = self\<lparr>u_messages := buf_clear (u_messages self)\<rparr>"

definition messages :: "ChatHistory \<Rightarrow> pyval list" where
  "messages self = buf_items (u_messages self)"

definition messages_setter :: "ChatHistory \<Rightarrow> pyval list \<Rightarrow> (error + unit) \<times> ChatHistory" where
  "messages_setter self ms =
     (case check_each ms of
        Inl e \<Rightarrow> (Inl e, self)
      | Inr ms' \<Rightarrow> (Inr (), self\<lparr>u_messages := PyList ms'\<rparr>))"

definition len :: "ChatHistory \<Rightarrow> nat" where
  "len self = length (buf_items (u_messages self))"

section \<open>AnthropicChatHistory.to_prompt\<close>

text \<open>
  \<^verbatim>\<open>str.title()\<close>.  On a string of ASCII characters the letters are the 52 of the two
  alphabets: a letter that follows a letter is put in lower case, any other letter in
  upper case, and every other character is kept.  On a string with a character beyond
  ASCII the case tables of the interpreter's Unicode database decide; they are not part
  of the code, and the result on such a string is the parameter \<open>unicode_title\<close>.
\<close>

definition ascii_lowercase :: string where
  "ascii_lowercase = ''abcdefghijklmnopqrstuvwxyz''"

definition ascii_uppercase :: string where
  "ascii_uppercase = ''ABCDEFGHIJKLMNOPQRSTUVWXYZ''"

definition ascii_isalpha :: "char \<Rightarrow> bool" where
  "ascii_isalpha c = (c \<in> set (ascii_lowercase @ ascii_uppercase))"

definition ascii_upper :: "char \<Rightarrow> char" where
  "ascii_upper c = (case map_of (zip ascii_lowercase ascii_uppercase) c of None \<Rightarrow> c | Some u \<Rightarrow> u)"

definition ascii_lower :: "char \<Rightarrow> char" where
  "ascii_lower c = (case map_of (zip ascii_uppercase ascii_lowercase) c of None \<Rightarrow> c | Some l \<Rightarrow> l)"

definition isascii :: "string \<Rightarrow> bool" where
  "isascii s = list_all (\<lambda>c. of_char c < (128::nat)) s"

fun ascii_title_from :: "bool \<Rightarrow> string \<Rightarrow> string" where
  "ascii_title_from previous_is_cased [] = []"
| "ascii_title_from previous_is_cased (c # cs) =
     (if previous_is_cased then ascii_lower c else ascii_upper c) # ascii_title_from (ascii_isalpha c) cs"

definition title :: "(string \<Rightarrow> string) \<Rightarrow> string \<Rightarrow> string" where
  "title unicode_title s = (if isascii s then ascii_title_from False s else unicode_title s)"

text \<open>
  The capitalized form of a word of ASCII letters: its first letter in upper case, the
  others in lower case.
\<close>

fun capitalize :: "string \<Rightarrow> string" where
  "capitalize [] = []"
| "capitalize (c # cs) = ascii_upper c # map ascii_lower cs"

text \<open>What an f-string field prints for a value: \<^verbatim>\<open>format(v, '')\<close>.\<close>

fun digits_of :: "nat \<Rightarrow> string" where
  "digits_of n =
     (if n < 10 then [''0123456789'' ! n]
      else digits_of (n div 10) @ [''0123456789'' ! (n mod 10)])"

fun py_format :: "pyatom \<Rightarrow> string" where
  "py_format PNone = ''None''"
| "py_format (PInt i) = (if i < 0 then ''-'' @ digits_of (nat (- i)) else digits_of (nat i))"
| "py_format (PStr s) = s"

text \<open>\<^verbatim>\<open>sep.join(xs)\<close>.\<close>

fun join :: "string \<Rightarrow> string list \<Rightarrow> string" where
  "join sep [] = []"
| "join sep [x] = x"
| "join sep (x # y # ys) = x @ sep @ join sep (y # ys)"

text \<open>
  The f-string \<^verbatim>\<open>f"{message['role'].title()}: {message['content']}"\<close> for one buffered
  message: its fields are evaluated from left to right.
\<close>

fun turn :: "(string \<Rightarrow> string) \<Rightarrow> pyval \<Rightarrow> error + string" where
  "turn unicode_title (Atom a) = Inl TypeError"
| "turn unicode_title (PDict message) =
     (case map_of message ''role'' of
        None \<Rightarrow> Inl (KeyError ''role'')
      | Some PNone \<Rightarrow> Inl AttributeError
      | Some (PInt i) \<Rightarrow> Inl AttributeError
      | Some (PStr role) \<Rightarrow>
          (case map_of message ''content'' of
             None \<Rightarrow> Inl (KeyError ''content'')
           | Some content \<Rightarrow> Inr (title unicode_title role @ '': '' @ py_format content)))"

fun turns :: "(string \<Rightarrow> string) \<Rightarrow> pyval list \<Rightarrow> error + string list" where
  "turns unicode_title [] = Inr []"
| "turns unicode_title (m # ms) =
     (case turn unicode_title m of
        Inl e \<Rightarrow> Inl e
      | Inr l \<Rightarrow> (case turns unicode_title ms of Inl e \<Rightarrow> Inl e | Inr ls \<Rightarrow> Inr (l # ls)))"

definition to_prompt :: "(string \<Rightarrow> string) \<Rightarrow> ChatHistory \<Rightarrow> bool \<Rightarrow> error + string" where
  "to_prompt unicode_title self end_with_assistant_prompt =
     (case turns unicode_title (buf_items (u_messages self)) of
        Inl e \<Rightarrow> Inl e
      | Inr ls \<Rightarrow>
          (let chat = join [CHR 0x0A, CHR 0x0A] ls
           in if end_with_assistant_prompt
              then Inr (chat @ [CHR 0x0A, CHR 0x0A] @ ''Assistant:'')
              else Inr chat))"

definition to_request_format :: "(string \<Rightarrow> string) \<Rightarrow> ChatHistory \<Rightarrow> error + string" where
  "to_request_format unicode_title self = to_prompt unicode_title self True"

text \<open>
  The prompt as the specification words it, for the pairs of role and content in
  insertion order: each pair gives the capitalized role, a colon and a space, and the
  content; the pairs are separated by a blank line; the cue for the assistant follows
  when it is asked for.
\<close>

definition spec_to_prompt :: "(string \<times> string) list \<Rightarrow> bool \<Rightarrow> string" where
  "spec_to_prompt pairs end_with_assistant_prompt =
     join [CHR 0x0A, CHR 0x0A] (map (\<lambda>(role, content). capitalize role @ '': '' @ content) pairs)
       @ (if end_with_assistant_prompt then [CHR 0x0A, CHR 0x0A] @ ''Assistant:'' else [])"

section \<open>The header formats\<close>

record APIHeader =
  key :: string
  value_fn :: "string \<Rightarrow> string"

definition SUCCESS_STATUS_CODE :: int where
  "SUCCESS_STATUS_CODE = 200"

definition API_HEADER_FORMAT_DICT :: "(string \<times> APIHeader) list" where
  "API_HEADER_FORMAT_DICT =
     [(''x-api-key'', \<lparr>key = ''X-API-Key'', value_fn = (\<lambda>api_key. api_key)\<rparr>),
      (''basic authentication'',
         \<lparr>key = ''Authorization'', value_fn = (\<lambda>api_key. ''Basic '' @ api_key)\<rparr>),
      (''bearer authentication'',
         \<lparr>key = ''Authorization'', value_fn = (\<lambda>api_key. ''Bearer '' @ api_key)\<rparr>)]"

section \<open>The HTTP library\<close>

text \<open>
  What the code uses of \<^verbatim>\<open>requests\<close> and \<^verbatim>\<open>urllib3\<close>.  A request is the URL, the JSON
  body and the headers; a response is the status code and the body, \<open>None\<close> when
  \<^verbatim>\<open>response.json()\<close> raises \<^verbatim>\<open>JSONDecodeError\<close>.  The server is a function from the
  number of requests it has already received and the request to what comes back: a
  response, or the exception of a request that gets none.  The world records the
  requests sent and the pauses made, in order.
\<close>

record http_request =
  url :: string
  json :: pydict
  headers :: "(string \<times> string) list"

record http_response =
  resp_status_code :: int
  resp_json :: "pydict option"

type_synonym server = "nat \<Rightarrow> http_request \<Rightarrow> error + http_response"

record world =
  sent :: "http_request list"
  slept :: "rat list"

record Retry =
  total :: int
  backoff_factor :: rat
  status_forcelist :: "int list"

record Session =
  adapters :: "(string \<times> Retry) list"

text \<open>
  A new session has the library's default adapter on both prefixes: no retry.
\<close>

definition DEFAULT_RETRIES :: Retry where
  "DEFAULT_RETRIES = \<lparr>total = 0, backoff_factor = 0, status_forcelist = []\<rparr>"

definition new_Session :: Session where
  "new_Session = \<lparr>adapters = [(''https://'', DEFAULT_RETRIES), (''http://'', DEFAULT_RETRIES)]\<rparr>"

definition mount :: "Session \<Rightarrow> string \<Rightarrow> Retry \<Rightarrow> Session" where
  "mount session prefix retries = session\<lparr>adapters := AList.update prefix retries (adapters session)\<rparr>"

text \<open>
  The module-level \<^verbatim>\<open>requests.post\<close> takes no session: it opens one of its own, with
  the default adapters, sends the request once and returns what comes back.
\<close>

definition requests_post :: "server \<Rightarrow> http_request \<Rightarrow> world \<Rightarrow> (error + http_response) \<times> world" where
  "requests_post srv req w = (srv (length (sent w)) req, w\<lparr>sent := sent w @ [req]\<rparr>)"

section \<open>BaseClient\<close>

text \<open>The class attributes that a client subclass sets.\<close>

record client_class =
  base_url :: string
  api_env_name :: string
  api_header_format :: string

definition BaseClient_class :: client_class where
  "BaseClient_class = \<lparr>base_url = ''none'', api_env_name = ''none'', api_header_format = ''none''\<rparr>"

definition RETRY_BACKOFF_FACTOR :: rat where
  "RETRY_BACKOFF_FACTOR = 1 / 10"

definition RETRY_STATUS_CODES :: "int list" where
  "RETRY_STATUS_CODES = [429, 500, 502, 503, 504]"

record BaseClient =
  cls :: client_class
  max_retries :: int
  u_api_key :: string
  u_api_header :: APIHeader

text \<open>
  \<^verbatim>\<open>api_key or os.environ.get(self.api_env_name)\<close>: the argument when it is a non-empty
  string, the environment's entry otherwise.
\<close>

definition resolve_api_key :: "(string \<rightharpoonup> string) \<Rightarrow> string \<Rightarrow> string option \<Rightarrow> string option" where
  "resolve_api_key environ name api_key =
     (case api_key of
        None \<Rightarrow> environ name
      | Some k \<Rightarrow> (if k = [] then environ name else Some k))"

definition BaseClient_init ::
  "client_class \<Rightarrow> (string \<rightharpoonup> string) \<Rightarrow> string option \<Rightarrow> int \<Rightarrow> error + BaseClient" where
  "BaseClient_init c environ api_key max_retries' =
     (case resolve_api_key environ (api_env_name c) api_key of
        None \<Rightarrow>
          Inl (ValueError ''You must provide an API key or set api_env_name to initialize an LM Client.'')
      | Some k \<Rightarrow>
          if base_url c = ''none'' then
            Inl (ValueError ''Client subclasses must define a base URL attribute.'')
          else
            (case map_of API_HEADER_FORMAT_DICT (api_header_format c) of
               None \<Rightarrow>
                 Inl (ValueError (''Client subclasses must have api_header_format in ''
                   @ ''['x-api-key', 'basic authentication', 'bearer authentication']''))
             | Some h \<Rightarrow>
                 Inr \<lparr>cls = c, max_retries = max_retries', u_api_key = k, u_api_header = h\<rparr>))"

text \<open>\<^verbatim>\<open>headers.update(d)\<close>: the items of \<open>d\<close> are assigned in order.\<close>

definition dict_update :: "(string \<times> string) list \<Rightarrow> (string \<times> string) list \<Rightarrow> (string \<times> string) list" where
  "dict_update d e = foldl (\<lambda>acc (k, v). AList.update k v acc) d e"

definition build_headers :: "BaseClient \<Rightarrow> (string \<times> string) list option \<Rightarrow> (string \<times> string) list" where
  "build_headers self extra_headers =
     (let headers =
            AList.update (key (u_api_header self)) (value_fn (u_api_header self) (u_api_key self))
              [(''accept'', ''application/json''), (''content-type'', ''application/json'')];
          headers = dict_update headers (case extra_headers of None \<Rightarrow> [] | Some e \<Rightarrow> e)
      in if u_api_key self \<notin> set (map snd headers)
         then AList.update ''Authorization'' (''Bearer '' @ u_api_key self) headers
         else headers)"

definition post_request ::
  "BaseClient \<Rightarrow> server \<Rightarrow> string \<Rightarrow> pydict \<Rightarrow> (string \<times> string) list option \<Rightarrow> world
     \<Rightarrow> (error + int \<times> pydict) \<times> world" where
  "post_request self srv api_path request extra_headers w =
     (let retries = \<lparr>total = max_retries self, backoff_factor = RETRY_BACKOFF_FACTOR,
                      status_forcelist = RETRY_STATUS_CODES\<rparr>;
          session = mount (mount new_Session ''https://'' retries) ''http://'' retries;
          headers = build_headers self extra_headers
      in case requests_post srv
                \<lparr>url = base_url (cls self) @ ''/'' @ api_path, json = request, headers = headers\<rparr> w of
           (Inl e, w') \<Rightarrow> (Inl e, w')
         | (Inr response, w') \<Rightarrow>
             (case resp_json response of
                Some response_dict \<Rightarrow> (Inr (resp_status_code response, response_dict), w')
              | None \<Rightarrow>
                  (Inr (if resp_status_code response \<noteq> SUCCESS_STATUS_CODE then 500
                        else resp_status_code response, []), w')))"

section \<open>AnthropicClient\<close>

record ClientResponse =
  cr_text :: pyatom
  raw_response :: pydict
  status_code :: int

definition AnthropicClient_class :: client_class where
  "AnthropicClient_class =
     \<lparr>base_url = ''https://api.anthropic.com'', api_env_name = ''ANTHROPIC_API_KEY'',
      api_header_format = ''x-api-key''\<rparr>"

definition AnthropicClient_init :: "(string \<rightharpoonup> string) \<Rightarrow> string option \<Rightarrow> error + BaseClient" where
  "AnthropicClient_init environ api_key = BaseClient_init AnthropicClient_class environ api_key 5"

text \<open>
  \<^verbatim>\<open>AnthropicCompleteSchema(prompt=prompt, **kwargs).to_request_dict()\<close> is the parameter
  \<open>to_request_dict\<close>: the request body for a prompt, or the exception of the schema.
\<close>

definition complete ::
  "BaseClient \<Rightarrow> (string \<Rightarrow> error + pydict) \<Rightarrow> server \<Rightarrow> string \<Rightarrow> world
     \<Rightarrow> (error + ClientResponse) \<times> world" where
  "complete self to_request_dict srv prompt w =
     (case to_request_dict prompt of
        Inl e \<Rightarrow> (Inl e, w)
      | Inr request \<Rightarrow>
          (case post_request self srv ''v1/complete'' request None w of
             (Inl e, w') \<Rightarrow> (Inl e, w')
           | (Inr (status, response), w') \<Rightarrow>
               if status = SUCCESS_STATUS_CODE then
                 (case map_of response ''completion'' of
                    None \<Rightarrow> (Inl (KeyError ''completion''), w')
                  | Some completion \<Rightarrow>
                      (Inr \<lparr>cr_text = completion, raw_response = response, status_code = status\<rparr>, w'))
               else
                 (Inr \<lparr>cr_text = PNone, raw_response = response, status_code = status\<rparr>, w')))"

section \<open>Inputs used in the examples\<close>

text \<open>
  The client that \<open>AnthropicClient_init\<close> builds from the key \<open>k1\<close>, the world before
  any request, and a server that gives the same answer to every request.
\<close>

abbreviation client_k1 :: BaseClient where
  "client_k1 \<equiv> \<lparr>cls = AnthropicClient_class, max_retries = 5, u_api_key = ''k1'',
     u_api_header = \<lparr>key = ''X-API-Key'', value_fn = (\<lambda>api_key. api_key)\<rparr>\<rparr>"

abbreviation world0 :: world where
  "world0 \<equiv> \<lparr>sent = [], slept = []\<rparr>"

abbreviation answering :: "int \<Rightarrow> pydict option \<Rightarrow> server" where
  "answering status body \<equiv> (\<lambda>n req. Inr \<lparr>resp_status_code = status, resp_json = body\<rparr>)"

text \<open>
  A client of a subclass whose scheme is \<open>basic authentication\<close>, as \<open>BaseClient_init\<close>
  builds it from the key \<open>k1\<close>.
\<close>

abbreviation basic_class :: client_class where
  "basic_class \<equiv> \<lparr>base_url = ''https://x.test'', api_env_name = ''X_API_KEY'',
     api_header_format = ''basic authentication''\<rparr>"

abbreviation client_basic :: BaseClient where
  "client_basic \<equiv> \<lparr>cls = basic_class, max_retries = 5, u_api_key = ''k1'',
     u_api_header = \<lparr>key = ''Authorization'', value_fn = (\<lambda>api_key. ''Basic '' @ api_key)\<rparr>\<rparr>"

abbreviation message :: "string \<Rightarrow> string \<Rightarrow> pyval" where
  "message role content \<equiv> PDict [(''role'', PStr role), (''content'', PStr content)]"

section \<open>Validation of messages\<close>

lemma check_message_format_Inl:
  "check_message_format m = Inl e \<Longrightarrow> \<exists>msg. e = ValueError msg"
  by (cases m) (auto split: if_splits)

lemma check_message_format_Inr:
  "check_message_format m = Inr m' \<Longrightarrow> m' = m"
  by (cases m) (auto split: if_splits)

lemma check_each_Inl:
  "m \<in> set ms \<Longrightarrow> check_message_format m = Inl e \<Longrightarrow> \<exists>msg. check_each ms = Inl (ValueError msg)"
proof (induction ms)
  case Nil
  then show ?case by simp
next
  case (Cons a ms)
  show ?case
  proof (cases "check_message_format a")
    case (Inl e')
    then show ?thesis
      using check_message_format_Inl [OF Inl] by auto
  next
    case (Inr a')
    with Cons.prems have "m \<in> set ms" by auto
    from Cons.IH [OF this Cons.prems(2)] Inr show ?thesis by auto
  qed
qed

lemma check_each_Inr:
  "check_each ms = Inr ms' \<Longrightarrow> ms' = ms"
proof (induction ms arbitrary: ms')
  case Nil
  then show ?case by simp
next
  case (Cons a ms)
  then show ?case
    by (auto split: sum.splits dest: check_message_format_Inr)
qed

text \<open>
  Claim C7, as the code has it.  \<open>check_message_format\<close> accepts a value, and returns it
  as it is, exactly when the value is a dictionary that has both a \<open>role\<close> and a
  \<open>content\<close> key; every other value (one that is not a dictionary, a dictionary with
  no \<open>role\<close> key, a dictionary with no \<open>content\<close> key) is refused with a
  \<open>ValueError\<close>.  Only the keys are looked at: nothing is said of the values under them.
\<close>

theorem check_message_format_keys:
  "(check_message_format m = Inr m \<longleftrightarrow>
      (\<exists>d r c. m = PDict d \<and> map_of d ''role'' = Some r \<and> map_of d ''content'' = Some c))
   \<and> (check_message_format m \<noteq> Inr m \<longrightarrow> (\<exists>msg. check_message_format m = Inl (ValueError msg)))
   \<and> (check_message_format m = Inr m' \<longrightarrow> m' = m)"
  by (cases m) (auto split: if_splits)

text \<open>
  The four refusals and the acceptance that the specification lists: a string, \<open>{}\<close>,
  \<open>{role: x}\<close>, \<open>{content: y}\<close>, and \<open>{role: x, content: y}\<close>.
\<close>

theorem check_message_format_keys_witness:
  "(\<exists>msg. check_message_format (Atom (PStr ''hi'')) = Inl (ValueError msg))
   \<and> (\<exists>msg. check_message_format (PDict []) = Inl (ValueError msg))
   \<and> (\<exists>msg. check_message_format (PDict [(''role'', PStr ''x'')]) = Inl (ValueError msg))
   \<and> (\<exists>msg. check_message_format (PDict [(''content'', PStr ''y'')]) = Inl (ValueError msg))
   \<and> check_message_format (PDict [(''role'', PStr ''x''), (''content'', PStr ''y'')])
       = Inr (PDict [(''role'', PStr ''x''), (''content'', PStr ''y'')])"
proof -
  note rej = check_message_format_keys [THEN conjunct2, THEN conjunct1, THEN mp]
  note acc = check_message_format_keys [THEN conjunct1, THEN iffD2]
  have "\<exists>msg. check_message_format (Atom (PStr ''hi'')) = Inl (ValueError msg)"
    by (rule rej) simp
  moreover have "\<exists>msg. check_message_format (PDict []) = Inl (ValueError msg)"
    by (rule rej) simp
  moreover have "\<exists>msg. check_message_format (PDict [(''role'', PStr ''x'')]) = Inl (ValueError msg)"
    by (rule rej) simp
  moreover have "\<exists>msg. check_message_format (PDict [(''content'', PStr ''y'')]) = Inl (ValueError msg)"
    by (rule rej) simp
  moreover have "check_message_format (PDict [(''role'', PStr ''x''), (''content'', PStr ''y'')])
       = Inr (PDict [(''role'', PStr ''x''), (''content'', PStr ''y'')])"
    by (rule acc) simp
  ultimately show ?thesis by blast
qed

text \<open>
  Claim C7 as the specification states it also says that an accepted message has a role
  and a content that are not null.  The message \<open>{role: None, content: None}\<close> is
  accepted, with both values null.
\<close>

theorem check_message_format_null_values_counterexample:
  "check_message_format (PDict [(''role'', PNone), (''content'', PNone)])
     = Inr (PDict [(''role'', PNone), (''content'', PNone)])
   \<and> map_of [(''role'', PNone), (''content'', PNone)] ''role'' = Some PNone
   \<and> map_of [(''role'', PNone), (''content'', PNone)] ''content'' = Some PNone"
  by simp

section \<open>The messages setter\<close>

text \<open>
  Claim C6.  The \<open>messages\<close> setter is atomic: when an element of the list assigned
  fails \<open>check_message_format\<close>, the assignment raises a \<open>ValueError\<close> (the code's format
  error) and the history is left as it was, so that \<open>messages\<close> reads the same
  contents as before.
\<close>

theorem messages_setter_atomic:
  assumes "m \<in> set ms" and "check_message_format m = Inl e"
  shows "\<exists>msg. messages_setter self ms = (Inl (ValueError msg), self)
         \<and> messages (snd (messages_setter self ms)) = messages self"
proof -
  from check_each_Inl [OF assms] obtain msg where "check_each ms = Inl (ValueError msg)" ..
  then show ?thesis by (simp add: messages_setter_def)
qed

text \<open>
  Assigning a valid message followed by one without a \<open>content\<close> key to a history that
  holds one message.
\<close>

theorem messages_setter_atomic_witness:
  "\<exists>msg. messages_setter
      \<lparr>max_length = 2, u_messages = Deque 2 [PDict [(''role'', PStr ''human''), (''content'', PStr ''hi'')]]\<rparr>
      [PDict [(''role'', PStr ''assistant''), (''content'', PStr ''hello'')], PDict [(''role'', PStr ''human'')]]
    = (Inl (ValueError msg),
       \<lparr>max_length = 2, u_messages = Deque 2 [PDict [(''role'', PStr ''human''), (''content'', PStr ''hi'')]]\<rparr>)
    \<and> messages (snd (messages_setter
      \<lparr>max_length = 2, u_messages = Deque 2 [PDict [(''role'', PStr ''human''), (''content'', PStr ''hi'')]]\<rparr>
      [PDict [(''role'', PStr ''assistant''), (''content'', PStr ''hello'')], PDict [(''role'', PStr ''human'')]]))
    = messages \<lparr>max_length = 2, u_messages = Deque 2 [PDict [(''role'', PStr ''human''), (''content'', PStr ''hi'')]]\<rparr>"
proof -
  have h1: "PDict [(''role'', PStr ''human'')]
      \<in> set [PDict [(''role'', PStr ''assistant''), (''content'', PStr ''hello'')], PDict [(''role'', PStr ''human'')]]"
    by simp
  have h2: "check_message_format (PDict [(''role'', PStr ''human'')])
      = Inl (ValueError ''Message must have a 'content' key.'')"
    by simp
  show ?thesis by (rule messages_setter_atomic [OF h1 h2])
qed

section \<open>Construction of a client\<close>

lemma AnthropicClient_init_k1:
  "AnthropicClient_init Map.empty (Some ''k1'') = Inr client_k1"
  by (simp add: AnthropicClient_init_def BaseClient_init_def resolve_api_key_def
      AnthropicClient_class_def API_HEADER_FORMAT_DICT_def)

text \<open>
  Claim C9 as the specification states it: construction fails exactly when the explicit
  key is null and the environment variable is unset, or the base URL is unset, or the
  scheme is not in the table.  With the empty string as explicit key (not null), no
  environment variable, the base URL of the Anthropic client and its scheme
  \<open>x-api-key\<close>, the claim says that construction succeeds; it raises.
\<close>

theorem BaseClient_init_empty_key_counterexample:
  "BaseClient_init AnthropicClient_class Map.empty (Some []) 5
     = Inl (ValueError ''You must provide an API key or set api_env_name to initialize an LM Client.'')
   \<and> Some [] \<noteq> (None :: string option)
   \<and> base_url AnthropicClient_class \<noteq> ''none''
   \<and> api_header_format AnthropicClient_class \<in> fst ` set API_HEADER_FORMAT_DICT"
  by (simp add: BaseClient_init_def resolve_api_key_def AnthropicClient_class_def API_HEADER_FORMAT_DICT_def)

text \<open>
  Claim C9, as the code has it.  Construction raises a \<open>ValueError\<close> (the code's
  configuration error) exactly when the explicit key is null or the empty string and
  the named environment variable is unset, or the base URL is the unset marker
  \<open>none\<close>, or the scheme name is not a key of \<open>API_HEADER_FORMAT_DICT\<close>; it returns
  a client exactly when none of the three holds.
\<close>

theorem BaseClient_init_fails_iff:
  "((\<exists>msg. BaseClient_init c environ api_key n = Inl (ValueError msg)) \<longleftrightarrow>
      ((api_key = None \<or> api_key = Some []) \<and> environ (api_env_name c) = None)
      \<or> base_url c = ''none''
      \<or> api_header_format c \<notin> fst ` set API_HEADER_FORMAT_DICT)
   \<and> ((\<exists>self. BaseClient_init c environ api_key n = Inr self) \<longleftrightarrow>
      \<not> (((api_key = None \<or> api_key = Some []) \<and> environ (api_env_name c) = None)
      \<or> base_url c = ''none''
      \<or> api_header_format c \<notin> fst ` set API_HEADER_FORMAT_DICT))"
  unfolding map_of_eq_None_iff [symmetric]
  by (auto simp: BaseClient_init_def resolve_api_key_def split: option.splits if_splits)

text \<open>
  An explicit key, then a key from the environment: a client.  No key at all, the base
  class with no base URL, a scheme that the table does not have: a \<open>ValueError\<close>.
\<close>

theorem BaseClient_init_fails_iff_witness:
  "(\<exists>self. BaseClient_init AnthropicClient_class Map.empty (Some ''k1'') 5 = Inr self)
   \<and> (\<exists>self. BaseClient_init AnthropicClient_class [''ANTHROPIC_API_KEY'' \<mapsto> ''k2''] None 5 = Inr self)
   \<and> (\<exists>msg. BaseClient_init AnthropicClient_class Map.empty None 5 = Inl (ValueError msg))
   \<and> (\<exists>msg. BaseClient_init BaseClient_class Map.empty (Some ''k1'') 5 = Inl (ValueError msg))
   \<and> (\<exists>msg. BaseClient_init
         \<lparr>base_url = ''https://x.test'', api_env_name = ''X_KEY'', api_header_format = ''digest''\<rparr>
         Map.empty (Some ''k1'') 5 = Inl (ValueError msg))"
proof -
  note ok = BaseClient_init_fails_iff [THEN conjunct2, THEN iffD2]
  note ko = BaseClient_init_fails_iff [THEN conjunct1, THEN iffD2]
  have "\<exists>self. BaseClient_init AnthropicClient_class Map.empty (Some ''k1'') 5 = Inr self"
    by (rule ok) (simp add: AnthropicClient_class_def API_HEADER_FORMAT_DICT_def)
  moreover have "\<exists>self. BaseClient_init AnthropicClient_class [''ANTHROPIC_API_KEY'' \<mapsto> ''k2''] None 5 = Inr self"
    by (rule ok) (simp add: AnthropicClient_class_def API_HEADER_FORMAT_DICT_def)
  moreover have "\<exists>msg. BaseClient_init AnthropicClient_class Map.empty None 5 = Inl (ValueError msg)"
    by (rule ko) simp
  moreover have "\<exists>msg. BaseClient_init BaseClient_class Map.empty (Some ''k1'') 5 = Inl (ValueError msg)"
    by (rule ko) (simp add: BaseClient_class_def)
  moreover have "\<exists>msg. BaseClient_init
         \<lparr>base_url = ''https://x.test'', api_env_name = ''X_KEY'', api_header_format = ''digest''\<rparr>
         Map.empty (Some ''k1'') 5 = Inl (ValueError msg)"
    by (rule ko) (simp add: API_HEADER_FORMAT_DICT_def)
  ultimately show ?thesis by blast
qed

section \<open>The response of a request\<close>

text \<open>
  Claim C3.  When the server answers the request with a response whose body does not
  decode, \<open>post_request\<close> returns the empty dictionary, with the status 200 when the
  response has the status 200 and the status 500 for every other status.
\<close>

theorem post_request_undecodable_body:
  assumes "srv (length (sent w))
             \<lparr>url = base_url (cls self) @ ''/'' @ api_path, json = request,
              headers = build_headers self extra_headers\<rparr> = Inr response"
    and "resp_json response = None"
  shows "fst (post_request self srv api_path request extra_headers w)
           = Inr (if resp_status_code response = 200 then 200 else 500, [])"
  using assms
  by (simp add: post_request_def requests_post_def SUCCESS_STATUS_CODE_def Let_def)

text \<open>A 503 and a 200, both with a body that does not decode.\<close>

theorem post_request_undecodable_body_witness:
  "fst (post_request client_k1 (answering 503 None) ''v1/complete'' [(''prompt'', PStr ''Hello'')] None world0)
     = Inr (500, [])
   \<and> fst (post_request client_k1 (answering 200 None) ''v1/complete'' [(''prompt'', PStr ''Hello'')] None world0)
     = Inr (200, [])"
proof -
  have "fst (post_request client_k1 (answering 503 None) ''v1/complete'' [(''prompt'', PStr ''Hello'')] None world0)
     = Inr (if resp_status_code \<lparr>resp_status_code = 503, resp_json = None\<rparr> = 200 then 200 else 500, [])"
    by (rule post_request_undecodable_body) simp_all
  moreover have "fst (post_request client_k1 (answering 200 None) ''v1/complete'' [(''prompt'', PStr ''Hello'')] None world0)
     = Inr (if resp_status_code \<lparr>resp_status_code = 200, resp_json = None\<rparr> = 200 then 200 else 500, [])"
    by (rule post_request_undecodable_body) simp_all
  ultimately show ?thesis by simp
qed

section \<open>complete\<close>

text \<open>
  Claim C10.  When the request body is built and \<open>post_request\<close> returns the status 200
  with a dictionary that has no \<open>completion\<close> key, \<open>complete\<close> raises a \<open>KeyError\<close>
  and returns no \<open>ClientResponse\<close>.
\<close>

theorem complete_missing_completion:
  assumes "to_request_dict prompt = Inr request"
    and "fst (post_request self srv ''v1/complete'' request None w) = Inr (200, response)"
    and "map_of response ''completion'' = None"
  shows "fst (complete self to_request_dict srv prompt w) = Inl (KeyError ''completion'')"
  using assms
  by (auto simp: complete_def SUCCESS_STATUS_CODE_def split: prod.splits sum.splits)

text \<open>The case that the claim names: a 200 response with a body that does not decode.\<close>

theorem complete_missing_completion_witness:
  "fst (complete client_k1 (\<lambda>prompt. Inr [(''prompt'', PStr prompt)]) (answering 200 None) ''Hello'' world0)
     = Inl (KeyError ''completion'')"
proof -
  have h1: "(\<lambda>prompt. Inr [(''prompt'', PStr prompt)]) ''Hello'' = (Inr [(''prompt'', PStr ''Hello'')] :: error + pydict)"
    by simp
  have h2: "fst (post_request client_k1 (answering 200 None) ''v1/complete'' [(''prompt'', PStr ''Hello'')] None world0)
     = Inr (200, [])"
    by (simp add: post_request_def requests_post_def SUCCESS_STATUS_CODE_def Let_def)
  have h3: "map_of ([] :: pydict) ''completion'' = None" by simp
  show ?thesis
    by (rule complete_missing_completion
          [where to_request_dict = "\<lambda>prompt. Inr [(''prompt'', PStr prompt)]" and prompt = "''Hello''",
           OF h1 h2 h3])
qed

text \<open>
  Claim C4 as the specification states it: for every pair that the transport returns,
  \<open>complete\<close> returns a \<open>ClientResponse\<close>.  The transport returns the pair of 200 and
  a body with no \<open>completion\<close> field, and \<open>complete\<close> raises.
\<close>

theorem complete_raises_counterexample:
  "fst (post_request client_k1 (answering 200 (Some [(''stop_reason'', PNone)])) ''v1/complete''
          [(''prompt'', PStr ''Hello'')] None world0)
     = Inr (200, [(''stop_reason'', PNone)])
   \<and> fst (complete client_k1 (\<lambda>prompt. Inr [(''prompt'', PStr prompt)])
          (answering 200 (Some [(''stop_reason'', PNone)])) ''Hello'' world0)
     = Inl (KeyError ''completion'')"
  by (simp add: complete_def post_request_def requests_post_def SUCCESS_STATUS_CODE_def Let_def)

text \<open>
  Claim C4, as the code has it.  When the request body is built and the transport
  returns a pair of status and body: for a status other than 200, \<open>complete\<close> returns
  the \<open>ClientResponse\<close> with a null text, that body and that status, and raises
  nothing; for the status 200 and a body with a \<open>completion\<close> field, it returns the
  \<open>ClientResponse\<close> with that field as text, that body and that status.
\<close>

theorem complete_maps_transport_result:
  assumes "to_request_dict prompt = Inr request"
    and "fst (post_request self srv ''v1/complete'' request None w) = Inr (status, response)"
  shows "(status \<noteq> 200 \<longrightarrow>
            fst (complete self to_request_dict srv prompt w)
              = Inr \<lparr>cr_text = PNone, raw_response = response, status_code = status\<rparr>)
       \<and> (status = 200 \<and> map_of response ''completion'' = Some t \<longrightarrow>
            fst (complete self to_request_dict srv prompt w)
              = Inr \<lparr>cr_text = t, raw_response = response, status_code = status\<rparr>)"
  using assms
  by (auto simp: complete_def SUCCESS_STATUS_CODE_def split: prod.splits sum.splits)

text \<open>
  A 200 with a completion, a 400 with an error body, and a 503 with a body that does
  not decode.
\<close>

theorem complete_maps_transport_result_witness:
  "fst (complete client_k1 (\<lambda>prompt. Inr [(''prompt'', PStr prompt)])
          (answering 200 (Some [(''completion'', PStr '' Hi!''), (''stop_reason'', PStr ''stop_sequence'')])) ''Hello'' world0)
     = Inr \<lparr>cr_text = PStr '' Hi!'',
            raw_response = [(''completion'', PStr '' Hi!''), (''stop_reason'', PStr ''stop_sequence'')],
            status_code = 200\<rparr>
   \<and> fst (complete client_k1 (\<lambda>prompt. Inr [(''prompt'', PStr prompt)])
          (answering 400 (Some [(''error'', PStr ''bad request'')])) ''Hello'' world0)
     = Inr \<lparr>cr_text = PNone, raw_response = [(''error'', PStr ''bad request'')], status_code = 400\<rparr>
   \<and> fst (complete client_k1 (\<lambda>prompt. Inr [(''prompt'', PStr prompt)])
          (answering 503 None) ''Hello'' world0)
     = Inr \<lparr>cr_text = PNone, raw_response = [], status_code = 500\<rparr>"
proof -
  have rq: "(\<lambda>prompt. Inr [(''prompt'', PStr prompt)]) ''Hello'' = (Inr [(''prompt'', PStr ''Hello'')] :: error + pydict)"
    by simp
  have p1: "fst (post_request client_k1
        (answering 200 (Some [(''completion'', PStr '' Hi!''), (''stop_reason'', PStr ''stop_sequence'')]))
        ''v1/complete'' [(''prompt'', PStr ''Hello'')] None world0)
      = Inr (200, [(''completion'', PStr '' Hi!''), (''stop_reason'', PStr ''stop_sequence'')])"
    by (simp add: post_request_def requests_post_def Let_def)
  have p2: "fst (post_request client_k1 (answering 400 (Some [(''error'', PStr ''bad request'')]))
        ''v1/complete'' [(''prompt'', PStr ''Hello'')] None world0)
      = Inr (400, [(''error'', PStr ''bad request'')])"
    by (simp add: post_request_def requests_post_def Let_def)
  have p3: "fst (post_request client_k1 (answering 503 None)
        ''v1/complete'' [(''prompt'', PStr ''Hello'')] None world0)
      = Inr (500, [])"
    by (simp add: post_request_def requests_post_def SUCCESS_STATUS_CODE_def Let_def)
  note t1 = complete_maps_transport_result
     [where to_request_dict = "\<lambda>prompt. Inr [(''prompt'', PStr prompt)]" and prompt = "''Hello''"
        and t = "PStr '' Hi!''", OF rq p1, THEN conjunct2, THEN mp]
  note t2 = complete_maps_transport_result
     [where to_request_dict = "\<lambda>prompt. Inr [(''prompt'', PStr prompt)]" and prompt = "''Hello''",
      OF rq p2, THEN conjunct1, THEN mp]
  note t3 = complete_maps_transport_result
     [where to_request_dict = "\<lambda>prompt. Inr [(''prompt'', PStr prompt)]" and prompt = "''Hello''",
      OF rq p3, THEN conjunct1, THEN mp]
  have "fst (complete client_k1 (\<lambda>prompt. Inr [(''prompt'', PStr prompt)])
          (answering 200 (Some [(''completion'', PStr '' Hi!''), (''stop_reason'', PStr ''stop_sequence'')])) ''Hello'' world0)
     = Inr \<lparr>cr_text = PStr '' Hi!'',
            raw_response = [(''completion'', PStr '' Hi!''), (''stop_reason'', PStr ''stop_sequence'')],
            status_code = 200\<rparr>"
    by (rule t1) simp
  moreover have "fst (complete client_k1 (\<lambda>prompt. Inr [(''prompt'', PStr prompt)])
          (answering 400 (Some [(''error'', PStr ''bad request'')])) ''Hello'' world0)
     = Inr \<lparr>cr_text = PNone, raw_response = [(''error'', PStr ''bad request'')], status_code = 400\<rparr>"
    by (rule t2) simp
  moreover have "fst (complete client_k1 (\<lambda>prompt. Inr [(''prompt'', PStr prompt)])
          (answering 503 None) ''Hello'' world0)
     = Inr \<lparr>cr_text = PNone, raw_response = [], status_code = 500\<rparr>"
    by (rule t3) simp
  ultimately show ?thesis by blast
qed

section \<open>The prompt of a history\<close>

lemma letters_ascii:
  "list_all (\<lambda>c. of_char c < (128::nat)) (ascii_lowercase @ ascii_uppercase)"
  by (simp add: ascii_lowercase_def ascii_uppercase_def)

lemma ascii_isalpha_ascii:
  "ascii_isalpha c \<Longrightarrow> of_char c < (128::nat)"
  using letters_ascii unfolding ascii_isalpha_def list_all_iff by blast

lemma letters_isascii:
  "list_all ascii_isalpha s \<Longrightarrow> isascii s"
  by (induction s) (auto simp: isascii_def ascii_isalpha_ascii)

lemma ascii_title_from_True_letters:
  "list_all ascii_isalpha cs \<Longrightarrow> ascii_title_from True cs = map ascii_lower cs"
  by (induction cs) auto

lemma title_capitalize:
  assumes "list_all ascii_isalpha role"
  shows "title unicode_title role = capitalize role"
proof -
  from assms have "title unicode_title role = ascii_title_from False role"
    by (simp add: title_def letters_isascii)
  also from assms have "\<dots> = capitalize role"
    by (cases role) (auto simp: ascii_title_from_True_letters)
  finally show ?thesis .
qed

lemma title_isascii:
  "isascii s \<Longrightarrow> title unicode_title s = ascii_title_from False s"
  by (simp add: title_def)

lemma map_title_capitalize:
  "list_all (\<lambda>(role, content). list_all ascii_isalpha role) pairs \<Longrightarrow>
     map (\<lambda>(role, content). title unicode_title role @ '': '' @ content) pairs
       = map (\<lambda>(role, content). capitalize role @ '': '' @ content) pairs"
  by (induction pairs) (auto simp: title_capitalize)

lemma turns_of_pairs:
  "list_all2 (\<lambda>m (role, content). \<exists>d. m = PDict d \<and> map_of d ''role'' = Some (PStr role)
       \<and> map_of d ''content'' = Some (PStr content)) ms pairs
   \<Longrightarrow> turns unicode_title ms
         = Inr (map (\<lambda>(role, content). title unicode_title role @ '': '' @ content) pairs)"
proof (induction ms pairs rule: list_all2_induct)
  case Nil
  then show ?case by simp
next
  case (Cons m p ms ps)
  then show ?case by (cases p) auto
qed

text \<open>
  Claim C8 as the specification states it: each role is capitalized.  For the history
  that holds the one message of role \<open>tool_result\<close> and content \<open>ok\<close>, the code
  gives the label \<open>Tool_Result\<close>, where the capitalized role is \<open>Tool_result\<close>.
\<close>

theorem to_prompt_title_counterexample:
  "to_prompt (\<lambda>role. role) \<lparr>max_length = 10, u_messages = Deque 10 [message ''tool_result'' ''ok'']\<rparr> True
     = Inr ''Tool_Result: ok\<newline>\<newline>Assistant:''
   \<and> spec_to_prompt [(''tool_result'', ''ok'')] True = ''Tool_result: ok\<newline>\<newline>Assistant:''
   \<and> to_prompt (\<lambda>role. role) \<lparr>max_length = 10, u_messages = Deque 10 [message ''tool_result'' ''ok'']\<rparr> True
     \<noteq> Inr (spec_to_prompt [(''tool_result'', ''ok'')] True)"
  by (simp add: to_prompt_def spec_to_prompt_def title_def isascii_def ascii_isalpha_def
      ascii_upper_def ascii_lower_def ascii_lowercase_def ascii_uppercase_def)

text \<open>
  Claim C8, as the code has it.  For a history whose messages, in insertion order, are
  dictionaries with a string under \<open>role\<close> and a string under \<open>content\<close>, whatever
  these strings are, \<open>to_prompt\<close> returns the labels and contents joined by a blank
  line, each label being what \<open>str.title\<close> makes of the role (title case: on an ASCII
  role, a letter that follows a letter in lower case and every other letter in upper
  case) followed by a colon and a space, and then the cue \<open>Assistant:\<close> after a blank
  line when \<open>end_with_assistant_prompt\<close> is true; \<open>to_request_format\<close> is \<open>to_prompt\<close>
  with the cue.  When every role is made of ASCII letters only, as \<open>human\<close> and
  \<open>assistant\<close> are, title case is capitalization and the result is the prompt that the
  specification words.
\<close>

theorem to_prompt_title_join:
  assumes "list_all2 (\<lambda>m (role, content). \<exists>d. m = PDict d \<and> map_of d ''role'' = Some (PStr role)
       \<and> map_of d ''content'' = Some (PStr content)) (messages self) pairs"
  shows "to_prompt unicode_title self end_with_assistant_prompt
           = Inr (join ''\<newline>\<newline>''
                    (map (\<lambda>(role, content). title unicode_title role @ '': '' @ content) pairs)
                  @ (if end_with_assistant_prompt then ''\<newline>\<newline>Assistant:'' else []))
         \<and> to_request_format unicode_title self
           = Inr (join ''\<newline>\<newline>''
                    (map (\<lambda>(role, content). title unicode_title role @ '': '' @ content) pairs)
                  @ ''\<newline>\<newline>Assistant:'')
         \<and> (list_all (\<lambda>(role, content). list_all ascii_isalpha role) pairs \<longrightarrow>
              to_prompt unicode_title self end_with_assistant_prompt
                = Inr (spec_to_prompt pairs end_with_assistant_prompt))"
proof -
  from assms have t: "turns unicode_title (buf_items (u_messages self))
      = Inr (map (\<lambda>(role, content). title unicode_title role @ '': '' @ content) pairs)"
    unfolding messages_def by (rule turns_of_pairs)
  have a: "to_prompt unicode_title self end_with_assistant_prompt
           = Inr (join ''\<newline>\<newline>''
                    (map (\<lambda>(role, content). title unicode_title role @ '': '' @ content) pairs)
                  @ (if end_with_assistant_prompt then ''\<newline>\<newline>Assistant:'' else []))"
    by (simp add: to_prompt_def t)
  have b: "to_request_format unicode_title self
           = Inr (join ''\<newline>\<newline>''
                    (map (\<lambda>(role, content). title unicode_title role @ '': '' @ content) pairs)
                  @ ''\<newline>\<newline>Assistant:'')"
    by (simp add: to_request_format_def to_prompt_def t)
  have c: "to_prompt unicode_title self end_with_assistant_prompt
             = Inr (spec_to_prompt pairs end_with_assistant_prompt)"
    if "list_all (\<lambda>(role, content). list_all ascii_isalpha role) pairs"
    unfolding a spec_to_prompt_def map_title_capitalize [OF that] by simp
  from a b c show ?thesis by blast
qed

text \<open>
  The history of the two messages \<open>{human, hi}\<close> and \<open>{assistant, hello}\<close>, with the
  cue and without it, where \<open>title\<close> does not look at its parameter; and a history
  with a role beyond ASCII, whose label is what the interpreter's \<open>str.title\<close> gives
  for it.
\<close>

theorem to_prompt_title_join_witness:
  "to_prompt (\<lambda>role. role)
      \<lparr>max_length = 10, u_messages = Deque 10 [message ''human'' ''hi'', message ''assistant'' ''hello'']\<rparr> True
     = Inr ''Human: hi\<newline>\<newline>Assistant: hello\<newline>\<newline>Assistant:''
   \<and> to_prompt (\<lambda>role. role)
      \<lparr>max_length = 10, u_messages = Deque 10 [message ''human'' ''hi'', message ''assistant'' ''hello'']\<rparr> False
     = Inr ''Human: hi\<newline>\<newline>Assistant: hello''
   \<and> (\<forall>unicode_title. to_prompt unicode_title
      \<lparr>max_length = 10, u_messages = Deque 10 [message [CHR 0xE9, CHR ''a''] ''hi'']\<rparr> False
     = Inr (unicode_title [CHR 0xE9, CHR ''a''] @ '': hi''))"
proof -
  have h1: "list_all2 (\<lambda>m (role, content). \<exists>d. m = PDict d \<and> map_of d ''role'' = Some (PStr role)
       \<and> map_of d ''content'' = Some (PStr content))
     (messages \<lparr>max_length = 10, u_messages = Deque 10 [message ''human'' ''hi'', message ''assistant'' ''hello'']\<rparr>)
     [(''human'', ''hi''), (''assistant'', ''hello'')]"
    by (simp add: messages_def)
  have h2: "list_all2 (\<lambda>m (role, content). \<exists>d. m = PDict d \<and> map_of d ''role'' = Some (PStr role)
       \<and> map_of d ''content'' = Some (PStr content))
     (messages \<lparr>max_length = 10, u_messages = Deque 10 [message [CHR 0xE9, CHR ''a''] ''hi'']\<rparr>)
     [([CHR 0xE9, CHR ''a''], ''hi'')]"
    by (simp add: messages_def)
  note t = to_prompt_title_join [OF h1, THEN conjunct1]
  note u = to_prompt_title_join [OF h2, THEN conjunct1]
  have tt: "title (\<lambda>role. role) ''human'' = ''Human''" "title (\<lambda>role. role) ''assistant'' = ''Assistant''"
    by (simp_all add: title_def isascii_def ascii_isalpha_def ascii_upper_def ascii_lower_def
        ascii_lowercase_def ascii_uppercase_def)
  have uu: "title unicode_title [CHR 0xE9, CHR ''a''] = unicode_title [CHR 0xE9, CHR ''a'']"
    for unicode_title
    by (simp add: title_def isascii_def)
  show ?thesis
    using t [of "\<lambda>role. role" True] t [of "\<lambda>role. role" False] u [of _ False]
    by (simp add: tt uu)
qed

section \<open>The requests that are sent\<close>

text \<open>
  Whatever the server answers, \<open>post_request\<close> sends one request and makes no pause:
  the session on which the retries are mounted is not the one that sends.
\<close>

lemma post_request_sends_once:
  "sent (snd (post_request self srv api_path request extra_headers w))
     = sent w @ [\<lparr>url = base_url (cls self) @ ''/'' @ api_path, json = request,
                  headers = build_headers self extra_headers\<rparr>]
   \<and> slept (snd (post_request self srv api_path request extra_headers w)) = slept w"
  by (simp add: post_request_def requests_post_def Let_def split: sum.splits option.splits)

text \<open>
  Claim C1, evaluated on the code.  The client has \<open>max_retries = 5\<close>, the backoff factor
  is 0.1 and 429 is a status to retry; the server answers every request with 429.
  \<open>post_request\<close> returns the pair of 429 and the body, as the claim says, but after one
  request and no pause, where the claim says five attempts with pauses between them.
\<close>

theorem post_request_single_attempt:
  "fst (post_request client_k1 (answering 429 (Some [(''error'', PStr ''rate_limit_error'')]))
          ''v1/complete'' [(''prompt'', PStr ''Hello'')] None world0)
     = Inr (429, [(''error'', PStr ''rate_limit_error'')])
   \<and> length (sent (snd (post_request client_k1 (answering 429 (Some [(''error'', PStr ''rate_limit_error'')]))
          ''v1/complete'' [(''prompt'', PStr ''Hello'')] None world0))) = 1
   \<and> slept (snd (post_request client_k1 (answering 429 (Some [(''error'', PStr ''rate_limit_error'')]))
          ''v1/complete'' [(''prompt'', PStr ''Hello'')] None world0)) = []
   \<and> max_retries client_k1 = 5 \<and> RETRY_BACKOFF_FACTOR = 1 / 10 \<and> 429 \<in> set RETRY_STATUS_CODES"
  by (simp add: post_request_def requests_post_def Let_def RETRY_BACKOFF_FACTOR_def RETRY_STATUS_CODES_def)

section \<open>The headers of a request\<close>

lemma BaseClient_init_basic:
  "BaseClient_init basic_class Map.empty (Some ''k1'') 5 = Inr client_basic"
  by (simp add: BaseClient_init_def resolve_api_key_def API_HEADER_FORMAT_DICT_def)

text \<open>
  With no extra headers, the schemes \<open>x-api-key\<close> and \<open>bearer authentication\<close> send the
  two fixed headers and the header of the table.
\<close>

lemma build_headers_x_api_key:
  "u_api_header self = \<lparr>key = ''X-API-Key'', value_fn = (\<lambda>api_key. api_key)\<rparr> \<Longrightarrow>
   build_headers self None
     = [(''accept'', ''application/json''), (''content-type'', ''application/json''),
        (''X-API-Key'', u_api_key self)]"
  by (simp add: build_headers_def dict_update_def)

lemma build_headers_bearer:
  "u_api_header self = \<lparr>key = ''Authorization'', value_fn = (\<lambda>api_key. ''Bearer '' @ api_key)\<rparr> \<Longrightarrow>
   build_headers self None
     = [(''accept'', ''application/json''), (''content-type'', ''application/json''),
        (''Authorization'', ''Bearer '' @ u_api_key self)]"
  by (simp add: build_headers_def dict_update_def Let_def)

text \<open>
  Claim C5, evaluated on the code.  For the scheme \<open>basic authentication\<close> the table
  gives the header \<open>Authorization\<close> with the value \<open>Basic\<close> and the key; the client
  built for that scheme with the key \<open>k1\<close> and no extra headers sends
  \<open>Authorization: Bearer k1\<close>.
\<close>

theorem basic_authentication_sends_bearer:
  "map_of API_HEADER_FORMAT_DICT ''basic authentication''
     = Some \<lparr>key = ''Authorization'', value_fn = (\<lambda>api_key. ''Basic '' @ api_key)\<rparr>
   \<and> BaseClient_init basic_class Map.empty (Some ''k1'') 5 = Inr client_basic
   \<and> map headers (sent (snd (post_request client_basic (answering 200 (Some [(''completion'', PStr '' Hi!'')]))
          ''v1/complete'' [(''prompt'', PStr ''Hello'')] None world0)))
     = [[(''accept'', ''application/json''), (''content-type'', ''application/json''),
         (''Authorization'', ''Bearer k1'')]]"
  by (simp add: post_request_def requests_post_def Let_def build_headers_def dict_update_def
      BaseClient_init_def resolve_api_key_def API_HEADER_FORMAT_DICT_def)

section \<open>The bound of a history\<close>

text \<open>
  While the buffer is the deque of \<open>__init__\<close>, an append never raises, keeps the
  bound, and drops the oldest message when the deque is full.
\<close>

lemma append_Deque:
  assumes "u_messages self = Deque n xs" and "length xs \<le> n"
  shows "fst (append self role content) = Inr ()"
    and "length xs < n \<Longrightarrow> messages (snd (append self role content))
           = xs @ [PDict [(''role'', role), (''content'', content)]]"
    and "length xs = n \<Longrightarrow> messages (snd (append self role content))
           = tl (xs @ [PDict [(''role'', role), (''content'', content)]])"
    and "len (snd (append self role content)) \<le> n"
    and "\<exists>ys. u_messages (snd (append self role content)) = Deque n ys"
  using assms by (auto simp: append_def messages_def len_def)

text \<open>
  Claim C2, evaluated on the code.  A history of \<open>max_length = 1\<close> is assigned two valid
  messages through the setter: the assignment succeeds, the buffer is now a plain list
  of length 2, and a further append makes it 3 and drops nothing.
\<close>

theorem messages_setter_exceeds_max_length:
  "ChatHistory_init 1 = Inr \<lparr>max_length = 1, u_messages = Deque 1 []\<rparr>
   \<and> messages_setter \<lparr>max_length = 1, u_messages = Deque 1 []\<rparr> [message ''human'' ''a'', message ''assistant'' ''b'']
     = (Inr (), \<lparr>max_length = 1, u_messages = PyList [message ''human'' ''a'', message ''assistant'' ''b'']\<rparr>)
   \<and> len \<lparr>max_length = 1, u_messages = PyList [message ''human'' ''a'', message ''assistant'' ''b'']\<rparr> = 2
   \<and> messages (snd (append
        \<lparr>max_length = 1, u_messages = PyList [message ''human'' ''a'', message ''assistant'' ''b'']\<rparr>
        (PStr ''human'') (PStr ''c'')))
     = [message ''human'' ''a'', message ''assistant'' ''b'', message ''human'' ''c'']"
  by (simp add: ChatHistory_init_def messages_setter_def len_def append_def messages_def)

end
